theory Spec2Isabelle
  imports Main "HOL-Library.Word"
begin

unbundle bit_operations_syntax

section \<open>Strings\<close>

text \<open>
  A JavaScript string is modelled by the list of the bytes of its UTF-8 encoding
  (\<^typ>\<open>string\<close>): \<open>split(':')\<close>, the emptiness tests and \<open>parseInt\<close> act on it the
  same way as on the UTF-16 code units, and the hash is taken over these very bytes.
\<close>

fun startsWith :: "string \<Rightarrow> string \<Rightarrow> bool" where
  "startsWith s [] = True"
| "startsWith [] (p # ps) = False"
| "startsWith (c # cs) (p # ps) = (c = p \<and> startsWith cs ps)"

fun str_includes :: "string \<Rightarrow> string \<Rightarrow> bool" where
  "str_includes [] sub = (sub = [])"
| "str_includes (c # cs) sub = (startsWith (c # cs) sub \<or> str_includes cs sub)"

definition substring_from :: "nat \<Rightarrow> string \<Rightarrow> string" where
  "substring_from n s = drop n s"

text \<open>\<open>s.split(c)\<close>: the pieces between the occurrences of \<open>c\<close>; never an empty list.\<close>

fun str_split :: "char \<Rightarrow> string \<Rightarrow> string list" where
  "str_split c [] = [[]]"
| "str_split c (x # xs) =
     (if x = c then [] # str_split c xs
      else (case str_split c xs of [] \<Rightarrow> [[x]] | p # ps \<Rightarrow> (x # p) # ps))"

section \<open>Library functions of the platform\<close>

subsection \<open>\<open>Buffer.from(token, 'base64').toString('utf8')\<close>\<close>

text \<open>
  Node's decoder is lenient: characters outside the alphabet are skipped, both the
  standard and the URL-safe alphabet are read, decoding stops at the first \<open>=\<close>, and an
  incomplete last group yields the bytes it determines. The result is kept as bytes
  (ill-formed UTF-8, which Node replaces by U+FFFD, is left as it is).
\<close>

definition unbase64 :: "char \<Rightarrow> nat option" where
  "unbase64 c =
     (let n = (of_char c :: nat) in
      if 65 \<le> n \<and> n \<le> 90 then Some (n - 65)
      else if 97 \<le> n \<and> n \<le> 122 then Some (n - 71)
      else if 48 \<le> n \<and> n \<le> 57 then Some (n + 4)
      else if c = CHR ''+'' \<or> c = CHR ''-'' then Some 62
      else if c = CHR ''/'' \<or> c = CHR ''_'' then Some 63
      else None)"

fun sextets :: "string \<Rightarrow> nat list" where
  "sextets [] = []"
| "sextets (c # cs) =
     (if c = CHR ''='' then []
      else (case unbase64 c of None \<Rightarrow> sextets cs | Some v \<Rightarrow> v # sextets cs))"

fun octets :: "nat list \<Rightarrow> nat list" where
  "octets (a # b # c # d # r) =
     (a * 4 + b div 16) # ((b mod 16) * 16 + c div 4) # ((c mod 4) * 64 + d) # octets r"
| "octets [a, b, c] = [a * 4 + b div 16, (b mod 16) * 16 + c div 4]"
| "octets [a, b] = [a * 4 + b div 16]"
| "octets _ = []"

definition Buffer_from_base64 :: "string \<Rightarrow> string" where
  "Buffer_from_base64 token = map char_of (octets (sextets token))"

subsection \<open>\<open>parseInt\<close> and \<open>new Date(number)\<close>\<close>

text \<open>
  White space and line terminators of ECMAScript, as UTF-8 byte sequences: the length of
  the one at the front of the string, or 0.
\<close>

definition ws_length :: "string \<Rightarrow> nat" where
  "ws_length s =
     (case map of_char s :: nat list of
        [] \<Rightarrow> 0
      | a # r \<Rightarrow>
          if a \<in> {9, 10, 11, 12, 13, 32} then 1
          else if a = 194 \<and> take 1 r = [160] then 2
          else if a = 225 \<and> take 2 r = [154, 128] then 3
          else if a = 226 \<and> take 1 r = [128] \<and> length r \<ge> 2
                  \<and> (r ! 1 \<in> {128 ..< 139} \<or> r ! 1 \<in> {168, 169, 175}) then 3
          else if a = 226 \<and> take 2 r = [129, 159] then 3
          else if a = 227 \<and> take 2 r = [128, 128] then 3
          else if a = 239 \<and> take 2 r = [187, 191] then 3
          else 0)"

function trimStart :: "string \<Rightarrow> string" where
  "trimStart s = (if ws_length s = 0 \<or> length s < ws_length s then s
                  else trimStart (drop (ws_length s) s))"
  by pat_completeness auto
termination
  by (relation "measure length") auto

declare trimStart.simps [simp del]

definition digit_value :: "char \<Rightarrow> nat option" where
  "digit_value c =
     (let n = (of_char c :: nat) in
      if 48 \<le> n \<and> n \<le> 57 then Some (n - 48)
      else if 97 \<le> n \<and> n \<le> 122 then Some (n - 87)
      else if 65 \<le> n \<and> n \<le> 90 then Some (n - 55)
      else None)"

definition is_digit :: "nat \<Rightarrow> char \<Rightarrow> bool" where
  "is_digit R c = (case digit_value c of None \<Rightarrow> False | Some v \<Rightarrow> v < R)"

definition math_int :: "nat \<Rightarrow> string \<Rightarrow> int" where
  "math_int R Z = foldl (\<lambda>acc c. acc * int R + int (the (digit_value c))) 0 Z"

text \<open>
  \<open>parseInt(string)\<close> with no radix: leading white space is dropped, a sign is read, a
  prefix \<open>0x\<close> or \<open>0X\<close> selects radix 16, and the longest run of digits is the value; with
  no digit the result is \<open>NaN\<close> (\<open>None\<close>).
\<close>

definition parseInt :: "string \<Rightarrow> int option" where
  "parseInt inputString =
     (let S = trimStart inputString;
          sign = (if startsWith S ''-'' then - 1 else 1 :: int);
          S1 = (if startsWith S ''+'' \<or> startsWith S ''-'' then drop 1 S else S);
          R = (if startsWith S1 ''0x'' \<or> startsWith S1 ''0X'' then 16 else 10 :: nat);
          S2 = (if R = 16 then drop 2 S1 else S1);
          Z = takeWhile (is_digit R) S2
      in if Z = [] then None else Some (sign * math_int R Z))"

text \<open>
  \<open>new Date(number)\<close>: the time value in milliseconds since the epoch, or an invalid
  date (\<open>None\<close>) for \<open>NaN\<close> and for a magnitude above \<open>8.64e15\<close>. Every integer up to that
  bound is an exact double, so the integers here are the numbers the code computes with.
\<close>

definition new_Date :: "int option \<Rightarrow> int option" where
  "new_Date v =
     (case v of None \<Rightarrow> None
      | Some t \<Rightarrow> if \<bar>t\<bar> > 8640000000000000 then None else Some t)"

subsection \<open>\<open>crypto.createHash('sha256').update(s).digest('hex')\<close>\<close>

type_synonym w32 = "32 word"

definition rotr :: "nat \<Rightarrow> w32 \<Rightarrow> w32" where
  "rotr n x = drop_bit n x OR push_bit (32 - n) x"

definition Ch :: "w32 \<Rightarrow> w32 \<Rightarrow> w32 \<Rightarrow> w32" where
  "Ch x y z = (x AND y) XOR (NOT x AND z)"

definition Maj :: "w32 \<Rightarrow> w32 \<Rightarrow> w32 \<Rightarrow> w32" where
  "Maj x y z = (x AND y) XOR (x AND z) XOR (y AND z)"

definition Sum0 :: "w32 \<Rightarrow> w32" where
  "Sum0 x = rotr 2 x XOR rotr 13 x XOR rotr 22 x"

definition Sum1 :: "w32 \<Rightarrow> w32" where
  "Sum1 x = rotr 6 x XOR rotr 11 x XOR rotr 25 x"

definition sigma0 :: "w32 \<Rightarrow> w32" where
  "sigma0 x = rotr 7 x XOR rotr 18 x XOR drop_bit 3 x"

definition sigma1 :: "w32 \<Rightarrow> w32" where
  "sigma1 x = rotr 17 x XOR rotr 19 x XOR drop_bit 10 x"

definition round_constants :: "w32 list" where
  "round_constants =
     [1116352408, 1899447441, 3049323471, 3921009573, 961987163, 1508970993,
      2453635748, 2870763221, 3624381080, 310598401, 607225278, 1426881987,
      1925078388, 2162078206, 2614888103, 3248222580, 3835390401, 4022224774,
      264347078, 604807628, 770255983, 1249150122, 1555081692, 1996064986,
      2554220882, 2821834349, 2952996808, 3210313671, 3336571891, 3584528711,
      113926993, 338241895, 666307205, 773529912, 1294757372, 1396182291,
      1695183700, 1986661051, 2177026350, 2456956037, 2730485921, 2820302411,
      3259730800, 3345764771, 3516065817, 3600352804, 4094571909, 275423344,
      430227734, 506948616, 659060556, 883997877, 958139571, 1322822218,
      1537002063, 1747873779, 1955562222, 2024104815, 2227730452, 2361852424,
      2428436474, 2756734187, 3204031479, 3329325298]"

type_synonym hash_state = "w32 \<times> w32 \<times> w32 \<times> w32 \<times> w32 \<times> w32 \<times> w32 \<times> w32"

definition initial_hash :: hash_state where
  "initial_hash =
     (1779033703, 3144134277, 1013904242, 2773480762,
      1359893119, 2600822924, 528734635, 1541459225)"

definition utf8_pad :: "string \<Rightarrow> nat list" where
  "utf8_pad s =
     (let l = length s in
      map of_char s @ [128] @ replicate ((119 - l mod 64) mod 64) 0
        @ map (\<lambda>i. (l * 8) div 256 ^ i mod 256) [7, 6, 5, 4, 3, 2, 1, 0])"

fun be_words :: "nat list \<Rightarrow> w32 list" where
  "be_words (a # b # c # d # r) =
     word_of_nat (((a * 256 + b) * 256 + c) * 256 + d) # be_words r"
| "be_words _ = []"

fun schedule :: "nat \<Rightarrow> w32 list \<Rightarrow> w32 list" where
  "schedule 0 ws = ws"
| "schedule (Suc n) ws =
     (let l = length ws in
      schedule n (ws @ [sigma1 (ws ! (l - 2)) + ws ! (l - 7)
                         + sigma0 (ws ! (l - 15)) + ws ! (l - 16)]))"

definition sha_round :: "hash_state \<Rightarrow> w32 \<times> w32 \<Rightarrow> hash_state" where
  "sha_round st kw =
     (case st of (a, b, c, d, e, f, g, h) \<Rightarrow>
        let T1 = h + Sum1 e + Ch e f g + fst kw + snd kw;
            T2 = Sum0 a + Maj a b c
        in (T1 + T2, a, b, c, d + T1, e, f, g))"

definition compress :: "hash_state \<Rightarrow> w32 list \<Rightarrow> hash_state" where
  "compress H block =
     (case (H, foldl sha_round H (zip round_constants (schedule 48 block))) of
        ((a, b, c, d, e, f, g, h), (a', b', c', d', e', f', g', h')) \<Rightarrow>
          (a + a', b + b', c + c', d + d', e + e', f + f', g + g', h + h'))"

function blocks :: "hash_state \<Rightarrow> w32 list \<Rightarrow> hash_state" where
  "blocks H ws = (if length ws < 16 then H
                  else blocks (compress H (take 16 ws)) (drop 16 ws))"
  by pat_completeness auto
termination
  by (relation "measure (\<lambda>(H, ws). length ws)") auto

declare blocks.simps [simp del]

definition hex_digit :: "nat \<Rightarrow> char" where
  "hex_digit n = ''0123456789abcdef'' ! (n mod 16)"

definition hex8 :: "w32 \<Rightarrow> string" where
  "hex8 w = map (\<lambda>i. hex_digit (unat w div 16 ^ i)) [7, 6, 5, 4, 3, 2, 1, 0]"

definition sha256_hex :: "string \<Rightarrow> string" where
  "sha256_hex s =
     (case blocks initial_hash (be_words (utf8_pad s)) of
        (a, b, c, d, e, f, g, h) \<Rightarrow>
          hex8 a @ hex8 b @ hex8 c @ hex8 d @ hex8 e @ hex8 f @ hex8 g @ hex8 h)"

section \<open>Identity resolver\<close>

datatype exn = Error (message: string)

record token_info =
  userId :: string
  password :: string

text \<open>\<open>generateUserId\<close>: the first 16 characters of the hexadecimal SHA-256 digest.\<close>

definition generateUserId :: "string \<Rightarrow> string" where
  "generateUserId pw = take 16 (sha256_hex pw)"

text \<open>
  The body of the \<open>try\<close> block of \<open>verifyToken\<close>. \<open>now\<close> is the value of \<open>new Date()\<close>.
  The destructuring \<open>[password, timestamp] = decoded.split(':')\<close> takes the first two
  pieces; \<open>timestamp\<close> is \<open>undefined\<close> when there is one piece only. A comparison with
  an invalid date (\<open>NaN\<close>) is false.
\<close>

definition token_expired :: "int \<Rightarrow> int option \<Rightarrow> bool" where
  "token_expired now tokenTime =
     (case tokenTime of None \<Rightarrow> False | Some t \<Rightarrow> now - t > 24 * 60 * 60 * 1000)"

definition verifyToken_try :: "int \<Rightarrow> string \<Rightarrow> exn + token_info" where
  "verifyToken_try now token =
     (let decoded = Buffer_from_base64 token in
      case str_split CHR '':'' decoded of
        [] \<Rightarrow> Inl (Error ''Invalid token format'')
      | [pw] \<Rightarrow> Inl (Error ''Invalid token format'')
      | pw # timestamp # _ \<Rightarrow>
          if pw = [] \<or> timestamp = [] then Inl (Error ''Invalid token format'')
          else if token_expired now (new_Date (parseInt timestamp))
          then Inl (Error ''Token expired'')
          else Inr \<lparr>userId = generateUserId pw, password = pw\<rparr>)"

text \<open>
  \<open>verifyToken\<close>: the header is \<open>req.headers.authorization\<close>, \<open>None\<close> when the request
  has none. Whatever the \<open>try\<close> block throws is caught and replaced by
  \<open>Error('Invalid token')\<close>.
\<close>

definition verifyToken :: "int \<Rightarrow> string option \<Rightarrow> exn + token_info" where
  "verifyToken now authHeader =
     (case authHeader of
        None \<Rightarrow> Inl (Error ''Invalid authorization header'')
      | Some h \<Rightarrow>
          if h = [] \<or> \<not> startsWith h ''Bearer ''
          then Inl (Error ''Invalid authorization header'')
          else (case verifyToken_try now (substring_from 7 h) of
                  Inl e \<Rightarrow> Inl (Error ''Invalid token'')
                | Inr r \<Rightarrow> Inr r))"

section \<open>Note store\<close>

text \<open>
  A JSON value, as \<open>express.json()\<close> hands it to the handlers (numbers are kept as
  integers here). Notes are opaque to the server: only \<open>Array.isArray\<close> looks at them.
  A field that the body does not have is \<open>undefined\<close>, here \<open>None\<close>.
\<close>

datatype json = JNull | JBool bool | JNum int | JStr string | JArr "json list"
  | JObj "(string \<times> json) list"

definition Array_isArray :: "json option \<Rightarrow> bool" where
  "Array_isArray v = (case v of Some (JArr _) \<Rightarrow> True | _ \<Rightarrow> False)"

text \<open>
  The field \<open>timestamp\<close> of a request body enters the code through its truthiness and
  through \<open>new Date(timestamp)\<close> only, so it is modelled by what these two see:
  \<^item> \<open>Falsy\<close>: the field is absent, or \<open>null\<close>, \<open>false\<close>, \<open>0\<close> or the empty string;
  \<^item> \<open>Instant t\<close>: a truthy value that \<open>new Date\<close> turns into the valid date with time
    value \<open>t\<close> (an ISO-8601 string, as the clients send);
  \<^item> \<open>Invalid_Date\<close>: a truthy value that \<open>new Date\<close> turns into an invalid date.
\<close>

datatype client_timestamp = Falsy | Instant int | Invalid_Date

definition truthy :: "client_timestamp \<Rightarrow> bool" where
  "truthy ts = (ts \<noteq> Falsy)"

definition Date_of :: "client_timestamp \<Rightarrow> int option" where
  "Date_of ts = (case ts of Instant t \<Rightarrow> Some t | _ \<Rightarrow> None)"

text \<open>\<open>d1 <= d2\<close> on dates compares the time values; it is false when one is \<open>NaN\<close>.\<close>

definition date_le :: "int option \<Rightarrow> int option \<Rightarrow> bool" where
  "date_le d1 d2 = (case (d1, d2) of (Some a, Some b) \<Rightarrow> a \<le> b | _ \<Rightarrow> False)"

text \<open>
  A stored record. Its \<open>timestamp\<close> is the string \<open>new Date().toISOString()\<close> of the
  write, which \<open>new Date\<close> reads back as the same time value: the model keeps the time
  value in milliseconds.
\<close>

record UserRecord =
  "notes" :: json
  timestamp :: int

text \<open>
  The state of \<open>./data/notes.json\<close> as \<open>fs.readFile\<close> followed by \<open>JSON.parse\<close> sees
  it: missing (the error code \<open>ENOENT\<close>), failing in another way (any other I/O error,
  or text that is not JSON, with the error thrown), or the mapping from \<open>userId\<close> to
  record that the server itself writes. \<open>write_error\<close> is the error with which
  \<open>fs.writeFile\<close> would fail, if it would.
\<close>

datatype notes_file = ENOENT | Unreadable exn | Stored "string \<rightharpoonup> UserRecord"

record filesystem =
  NOTES_FILE :: notes_file
  write_error :: "exn option"

definition empty_record :: "int \<Rightarrow> UserRecord" where
  "empty_record now = \<lparr>notes = JArr [], timestamp = now\<rparr>"

definition loadNotes :: "int \<Rightarrow> string \<Rightarrow> filesystem \<Rightarrow> exn + UserRecord" where
  "loadNotes now uid fs =
     (case NOTES_FILE fs of
        Stored allNotes \<Rightarrow>
          Inr (case allNotes uid of Some r \<Rightarrow> r | None \<Rightarrow> empty_record now)
      | ENOENT \<Rightarrow> Inr (empty_record now)
      | Unreadable e \<Rightarrow> Inl e)"

text \<open>
  \<open>saveNotes(userId, userData)\<close>. \<open>read_allNotes\<close> is its inner \<open>try\<close>: the mapping
  in the file, the empty mapping when the file is missing, any other error rethrown.
  \<open>userData\<close> is \<open>{notes, timestamp}\<close>; the spread copies both and \<open>timestamp\<close> is then
  overwritten with the time of the write.
\<close>

definition read_allNotes :: "filesystem \<Rightarrow> exn + (string \<rightharpoonup> UserRecord)" where
  "read_allNotes fs =
     (case NOTES_FILE fs of
        Stored m \<Rightarrow> Inr m
      | ENOENT \<Rightarrow> Inr Map.empty
      | Unreadable e \<Rightarrow> Inl e)"

definition saveNotes ::
  "int \<Rightarrow> string \<Rightarrow> json \<times> client_timestamp \<Rightarrow> filesystem
     \<Rightarrow> (exn + UserRecord) \<times> filesystem" where
  "saveNotes now uid userData fs =
     (case read_allNotes fs of
        Inl e \<Rightarrow> (Inl e, fs)
      | Inr allNotes \<Rightarrow>
          let r = \<lparr>notes = fst userData, timestamp = now\<rparr>;
              allNotes' = allNotes(uid \<mapsto> r)
          in (case write_error fs of
                Some e \<Rightarrow> (Inl e, fs)
              | None \<Rightarrow> (Inr r, fs\<lparr>NOTES_FILE := Stored allNotes'\<rparr>)))"

section \<open>Routes\<close>

record request =
  authorization :: "string option"
  body_notes :: "json option"
  body_timestamp :: client_timestamp

datatype reply = Record_json UserRecord | Error_json string

datatype response = Response (status: nat) (body: reply)

text \<open>The \<open>catch\<close> block shared by the three routes.\<close>

definition on_error :: "exn \<Rightarrow> response" where
  "on_error e =
     (if str_includes (message e) ''Invalid'' \<or> str_includes (message e) ''expired''
      then Response 401 (Error_json (message e))
      else Response 500 (Error_json ''Internal server error''))"

text \<open>
  \<open>POST /sync-notes\<close>. The three times are the values of \<open>new Date()\<close> in
  \<open>verifyToken\<close>, in \<open>loadNotes\<close> and in \<open>saveNotes\<close>.
\<close>

definition sync_notes ::
  "int \<Rightarrow> int \<Rightarrow> int \<Rightarrow> request \<Rightarrow> filesystem \<Rightarrow> response \<times> filesystem" where
  "sync_notes now_v now_l now_s req fs =
     (case verifyToken now_v (authorization req) of
        Inl e \<Rightarrow> (on_error e, fs)
      | Inr tok \<Rightarrow>
          if \<not> Array_isArray (body_notes req)
          then (Response 400 (Error_json ''Notes must be an array''), fs)
          else (case loadNotes now_l (userId tok) fs of
                  Inl e \<Rightarrow> (on_error e, fs)
                | Inr existingData \<Rightarrow>
                    if truthy (body_timestamp req)
                       \<and> date_le (Date_of (body_timestamp req))
                                   (Some (timestamp existingData))
                    then (Response 200 (Record_json existingData), fs)
                    else (case saveNotes now_s (userId tok)
                                 (the (body_notes req), body_timestamp req) fs of
                            (Inl e, fs') \<Rightarrow> (on_error e, fs')
                          | (Inr responseData, fs') \<Rightarrow>
                              (Response 200 (Record_json responseData), fs'))))"

text \<open>\<open>GET /notes\<close>.\<close>

definition get_notes :: "int \<Rightarrow> int \<Rightarrow> request \<Rightarrow> filesystem \<Rightarrow> response \<times> filesystem" where
  "get_notes now_v now_l req fs =
     (case verifyToken now_v (authorization req) of
        Inl e \<Rightarrow> (on_error e, fs)
      | Inr tok \<Rightarrow>
          (case loadNotes now_l (userId tok) fs of
             Inl e \<Rightarrow> (on_error e, fs)
           | Inr data \<Rightarrow> (Response 200 (Record_json data), fs)))"

text \<open>\<open>POST /notes\<close>: \<open>saveNotes(userId, {notes})\<close>, with no \<open>timestamp\<close>.\<close>

definition post_notes :: "int \<Rightarrow> int \<Rightarrow> request \<Rightarrow> filesystem \<Rightarrow> response \<times> filesystem" where
  "post_notes now_v now_s req fs =
     (case verifyToken now_v (authorization req) of
        Inl e \<Rightarrow> (on_error e, fs)
      | Inr tok \<Rightarrow>
          if \<not> Array_isArray (body_notes req)
          then (Response 400 (Error_json ''Notes must be an array''), fs)
          else (case saveNotes now_s (userId tok) (the (body_notes req), Falsy) fs of
                  (Inl e, fs') \<Rightarrow> (on_error e, fs')
                | (Inr savedData, fs') \<Rightarrow> (Response 200 (Record_json savedData), fs')))"

text \<open>The entry of a user in the file, if the file holds one.\<close>

definition entry :: "filesystem \<Rightarrow> string \<Rightarrow> UserRecord option" where
  "entry fs uid = (case NOTES_FILE fs of Stored m \<Rightarrow> m uid | _ \<Rightarrow> None)"

section \<open>Tokens as the clients build them\<close>

text \<open>
  Modelled from the spec: the client that builds the tokens is not part of the sources.
  The token wire format is \<open>base64(password + ":" + issueInstantMillis)\<close>, the issue
  instant written in decimal.
\<close>

function digits10 :: "int \<Rightarrow> string" where
  "digits10 n = (if n < 10 then [char_of (48 + nat n)]
                 else digits10 (n div 10) @ [char_of (48 + nat (n mod 10))])"
  by pat_completeness auto
termination
  by (relation "measure nat") auto

declare digits10.simps [simp del]

definition decimal :: "int \<Rightarrow> string" where
  "decimal t = (if t < 0 then CHR ''-'' # digits10 (- t) else digits10 t)"

text \<open>The alphabet \<open>A\<close>-\<open>Z\<close>, \<open>a\<close>-\<open>z\<close>, \<open>0\<close>-\<open>9\<close>, \<open>+\<close>, \<open>/\<close>.\<close>

definition base64_char :: "nat \<Rightarrow> char" where
  "base64_char n =
     (if n < 26 then char_of (65 + n)
      else if n < 52 then char_of (71 + n)
      else if n < 62 then char_of (n - 4)
      else if n = 62 then CHR ''+'' else CHR ''/'')"

fun base64 :: "nat list \<Rightarrow> string" where
  "base64 (a # b # c # r) =
     base64_char (a div 4) # base64_char ((a mod 4) * 16 + b div 16)
       # base64_char ((b mod 16) * 4 + c div 64) # base64_char (c mod 64) # base64 r"
| "base64 [a, b] =
     [base64_char (a div 4), base64_char ((a mod 4) * 16 + b div 16),
      base64_char ((b mod 16) * 4), CHR ''='']"
| "base64 [a] = [base64_char (a div 4), base64_char ((a mod 4) * 16), CHR ''='', CHR ''='']"
| "base64 [] = []"

definition token_of :: "string \<Rightarrow> int \<Rightarrow> string" where
  "token_of secret issueInstantMillis =
     base64 (map of_char (secret @ '':'' @ decimal issueInstantMillis))"

section \<open>Splitting at the colons\<close>

lemma str_split_not_Nil: "str_split c s \<noteq> []"
  by (induction s) (auto split: list.splits)

lemma str_split_no_sep: "c \<notin> set s \<Longrightarrow> str_split c s = [s]"
  by (induction s) auto

lemma str_split_append_sep:
  "c \<notin> set d \<Longrightarrow> str_split c (s @ c # d) = str_split c s @ [d]"
proof (induction s)
  case Nil
  then show ?case by (simp add: str_split_no_sep)
next
  case (Cons x s)
  then show ?case
    by (cases "str_split c s") (auto simp: str_split_not_Nil)
qed

section \<open>Verifying a token\<close>

lemma verifyToken_Bearer:
  "verifyToken now (Some (''Bearer '' @ token)) =
     (case verifyToken_try now token of
        Inl e \<Rightarrow> Inl (Error ''Invalid token'') | Inr r \<Rightarrow> Inr r)"
  by (simp add: verifyToken_def substring_from_def)

lemma verifyToken_Bearer_Inr:
  "verifyToken now (Some (''Bearer '' @ token)) = Inr r \<Longrightarrow> verifyToken_try now token = Inr r"
  by (subst (asm) verifyToken_Bearer) (simp split: sum.splits)

lemma verifyToken_try_parts:
  assumes "str_split CHR '':'' (Buffer_from_base64 token) = pw # ts # rest"
  shows "verifyToken_try now token =
           (if pw = [] \<or> ts = [] then Inl (Error ''Invalid token format'')
            else if token_expired now (new_Date (parseInt ts)) then Inl (Error ''Token expired'')
            else Inr \<lparr>userId = generateUserId pw, password = pw\<rparr>)"
  using assms by (simp add: verifyToken_try_def)

lemma verifyToken_try_first_piece:
  assumes "Buffer_from_base64 token = s @ '':'' @ issued"
    and "CHR '':'' \<notin> set issued"
    and "verifyToken_try now token = Inr r"
  shows "userId r = generateUserId (hd (str_split CHR '':'' s))"
proof (cases "str_split CHR '':'' s")
  case Nil
  then show ?thesis by (simp add: str_split_not_Nil)
next
  case (Cons p ps)
  have "str_split CHR '':'' (Buffer_from_base64 token) = str_split CHR '':'' s @ [issued]"
    using str_split_append_sep [OF assms(2), of s] by (simp add: assms(1))
  with Cons obtain ts rest where
    "str_split CHR '':'' (Buffer_from_base64 token) = p # ts # rest"
    by (cases ps) simp_all
  then have "verifyToken_try now token =
           (if p = [] \<or> ts = [] then Inl (Error ''Invalid token format'')
            else if token_expired now (new_Date (parseInt ts)) then Inl (Error ''Token expired'')
            else Inr \<lparr>userId = generateUserId p, password = p\<rparr>)"
    by (rule verifyToken_try_parts)
  with assms(3) Cons show ?thesis by (auto split: if_splits)
qed

section \<open>The user identifier\<close>

lemma hex_digit_hex: "hex_digit n \<in> set ''0123456789abcdef''"
proof -
  have "n mod 16 < length ''0123456789abcdef''" by simp
  then show ?thesis unfolding hex_digit_def by (rule nth_mem)
qed

lemma length_hex8: "length (hex8 w) = 8"
  by (simp add: hex8_def)

lemma set_hex8: "set (hex8 w) \<subseteq> set ''0123456789abcdef''"
  unfolding hex8_def set_map using hex_digit_hex by blast

lemma length_sha256_hex: "length (sha256_hex s) = 64"
  by (simp add: sha256_hex_def length_hex8 split: prod.splits)

lemma set_sha256_hex: "set (sha256_hex s) \<subseteq> set ''0123456789abcdef''"
  using set_hex8 by (auto simp: sha256_hex_def simp del: set_simps split: prod.splits)

lemma generateUserId_hex16:
  "length (generateUserId s) = 16 \<and> set (generateUserId s) \<subseteq> set ''0123456789abcdef''"
proof -
  have "set (take 16 (sha256_hex s)) \<subseteq> set (sha256_hex s)" by (rule set_take_subset)
  then show ?thesis using set_sha256_hex [of s] by (simp add: generateUserId_def length_sha256_hex)
qed

subsection \<open>A known digest\<close>

text \<open>
  The digest of \<open>p1\<close>, the secret of the spec's example, computed by rewriting: the
  padded block, its message schedule, the 64 rounds four at a time, and the digest.
\<close>

lemma replicate_numeral: "replicate (numeral v) x = x # replicate (numeral v - 1) x"
  by (simp add: numeral_eq_Suc)

lemma schedule_numeral:
  "schedule (numeral v) ws =
     schedule (numeral v - 1) (ws @ [sigma1 (ws ! (length ws - 2)) + ws ! (length ws - 7)
                         + sigma0 (ws ! (length ws - 15)) + ws ! (length ws - 16)])"
  by (simp add: numeral_eq_Suc Let_def)

lemma pad_p1: "be_words (utf8_pad ''p1'') = [1882292224, 0, 0, 0, 0, 0, 0, 0, 0, 0, 0, 0, 0, 0, 0, 16]"
  by (simp add: utf8_pad_def replicate_numeral)

lemma schedule_p1:
  "schedule 48 [1882292224, 0, 0, 0, 0, 0, 0, 0, 0, 0, 0, 0, 0, 0, 0, 16] =
    [1882292224, 0, 0, 0, 0, 0, 0, 0, 0, 0, 0, 0, 0, 0, 0, 16, 1882292224, 655360,
     4028381822, 1073742468, 2588713219, 16951296, 3297193303, 1899085835, 1933196056,
     3358905676, 2599681016, 2324336940, 2208860889, 3742934023, 3847019408, 685071482,
     2934630023, 2385666907, 2860545040, 2110501781, 1479046439, 306381329, 2319736490,
     2981237270, 1540678910, 3669027323, 4089784539, 3463143723, 76731848, 1365721703,
     1840291606, 1899413358, 605762284, 859794450, 1102455780, 920822212, 1612128201,
     3636553765, 659636720, 1038110663, 4001472098, 774169337, 3179912979, 1100233496,
     3987798928, 442547197, 2335251723, 3132124512]"
  by (simp add: schedule_numeral sigma0_def sigma1_def rotr_def)

lemma rounds_p1:
  "foldl sha_round initial_hash
      [(1116352408, 1882292224), (1899447441, 0), (3049323471, 0), (3921009573, 0)] =
    (3099116679, 2078731277, 537630916, 1815742541, 360042694, 4009892704, 17434494, 150561442)"
  "foldl sha_round (3099116679, 2078731277, 537630916, 1815742541, 360042694, 4009892704, 17434494, 150561442)
      [(961987163, 0), (1508970993, 0), (2453635748, 0), (2870763221, 0)] =
    (3570699172, 2665613491, 1974657822, 1669729778, 3957623602, 1526907556, 718428313, 1846763445)"
  "foldl sha_round (3570699172, 2665613491, 1974657822, 1669729778, 3957623602, 1526907556, 718428313, 1846763445)
      [(3624381080, 0), (310598401, 0), (607225278, 0), (1426881987, 0)] =
    (1515853730, 8463447, 801157007, 1374098, 1218767505, 3847689259, 2706608568, 1416323760)"
  "foldl sha_round (1515853730, 8463447, 801157007, 1374098, 1218767505, 3847689259, 2706608568, 1416323760)
      [(1925078388, 0), (2162078206, 0), (2614888103, 0), (3248222580, 16)] =
    (3295105896, 1936357034, 2755349903, 1016768184, 1781749036, 3482044206, 1793337571, 3994327154)"
  "foldl sha_round (3295105896, 1936357034, 2755349903, 1016768184, 1781749036, 3482044206, 1793337571, 3994327154)
      [(3835390401, 1882292224), (4022224774, 655360), (264347078, 4028381822),
       (604807628, 1073742468)] =
    (2979644512, 375126852, 3539694838, 3065362888, 782877101, 3019075161, 1270830488, 3620910053)"
  "foldl sha_round (2979644512, 375126852, 3539694838, 3065362888, 782877101, 3019075161, 1270830488, 3620910053)
      [(770255983, 2588713219), (1249150122, 16951296), (1555081692, 3297193303),
       (1996064986, 1899085835)] =
    (552045174, 409927954, 1064946744, 3574459789, 2189702753, 4035037169, 1321168786, 2423600097)"
  "foldl sha_round (552045174, 409927954, 1064946744, 3574459789, 2189702753, 4035037169, 1321168786, 2423600097)
      [(2554220882, 1933196056), (2821834349, 3358905676), (2952996808, 2599681016),
       (3210313671, 2324336940)] =
    (86721657, 1944852679, 2210990193, 4007347760, 2544255456, 3794826510, 858418570, 1171811945)"
  "foldl sha_round (86721657, 1944852679, 2210990193, 4007347760, 2544255456, 3794826510, 858418570, 1171811945)
      [(3336571891, 2208860889), (3584528711, 3742934023), (113926993, 3847019408),
       (338241895, 685071482)] =
    (3246038608, 290342478, 3405940672, 1936864388, 3827939425, 993943437, 1798599663, 2396083699)"
  "foldl sha_round (3246038608, 290342478, 3405940672, 1936864388, 3827939425, 993943437, 1798599663, 2396083699)
      [(666307205, 2934630023), (773529912, 2385666907), (1294757372, 2860545040),
       (1396182291, 2110501781)] =
    (3163087700, 4260175272, 4115003913, 437005111, 443300486, 2197272173, 4284705967, 2744248886)"
  "foldl sha_round (3163087700, 4260175272, 4115003913, 437005111, 443300486, 2197272173, 4284705967, 2744248886)
      [(1695183700, 1479046439), (1986661051, 306381329), (2177026350, 2319736490),
       (2456956037, 2981237270)] =
    (1770609750, 297656664, 707203089, 3669790886, 304748955, 4273839448, 1625624015, 3773837941)"
  "foldl sha_round (1770609750, 297656664, 707203089, 3669790886, 304748955, 4273839448, 1625624015, 3773837941)
      [(2730485921, 1540678910), (2820302411, 3669027323), (3259730800, 4089784539),
       (3345764771, 3463143723)] =
    (2807524171, 4189376942, 1888625044, 602263909, 3201283026, 1374684284, 611672153, 2002046658)"
  "foldl sha_round (2807524171, 4189376942, 1888625044, 602263909, 3201283026, 1374684284, 611672153, 2002046658)
      [(3516065817, 76731848), (3600352804, 1365721703), (4094571909, 1840291606),
       (275423344, 1899413358)] =
    (3559819440, 1841254667, 179707909, 2510031844, 3210174184, 1171795418, 3142039900, 3653610695)"
  "foldl sha_round (3559819440, 1841254667, 179707909, 2510031844, 3210174184, 1171795418, 3142039900, 3653610695)
      [(430227734, 605762284), (506948616, 859794450), (659060556, 1102455780),
       (883997877, 920822212)] =
    (3283803195, 1263938836, 206012837, 143250045, 1826513629, 1556539142, 3553234046, 2260213336)"
  "foldl sha_round (3283803195, 1263938836, 206012837, 143250045, 1826513629, 1556539142, 3553234046, 2260213336)
      [(958139571, 1612128201), (1322822218, 3636553765), (1537002063, 659636720),
       (1747873779, 1038110663)] =
    (4267900439, 3943570131, 3147286395, 2256017654, 46673399, 679716830, 2115714310, 1231755368)"
  "foldl sha_round (4267900439, 3943570131, 3147286395, 2256017654, 46673399, 679716830, 2115714310, 1231755368)
      [(1955562222, 4001472098), (2024104815, 774169337), (2227730452, 3179912979),
       (2361852424, 1100233496)] =
    (1355660301, 3876792578, 620823819, 2951930751, 3936722900, 1035015896, 3047790648, 3062172343)"
  "foldl sha_round (1355660301, 3876792578, 620823819, 2951930751, 3936722900, 1035015896, 3047790648, 3062172343)
      [(2428436474, 3987798928), (2756734187, 442547197), (3204031479, 2335251723),
       (3329325298, 3132124512)] =
    (2352704405, 461949342, 2400756650, 1447120682, 3570124201, 3493153123, 1943679762, 512305521)"
  by (simp_all add: initial_hash_def sha_round_def Sum0_def Sum1_def Ch_def Maj_def rotr_def
        Let_def)

lemma zip_p1:
  "zip round_constants
    [1882292224, 0, 0, 0, 0, 0, 0, 0, 0, 0, 0, 0, 0, 0, 0, 16, 1882292224, 655360,
     4028381822, 1073742468, 2588713219, 16951296, 3297193303, 1899085835, 1933196056,
     3358905676, 2599681016, 2324336940, 2208860889, 3742934023, 3847019408, 685071482,
     2934630023, 2385666907, 2860545040, 2110501781, 1479046439, 306381329, 2319736490,
     2981237270, 1540678910, 3669027323, 4089784539, 3463143723, 76731848, 1365721703,
     1840291606, 1899413358, 605762284, 859794450, 1102455780, 920822212, 1612128201,
     3636553765, 659636720, 1038110663, 4001472098, 774169337, 3179912979, 1100233496,
     3987798928, 442547197, 2335251723, 3132124512] =
     [(1116352408, 1882292224), (1899447441, 0), (3049323471, 0), (3921009573, 0)] @
     [(961987163, 0), (1508970993, 0), (2453635748, 0), (2870763221, 0)] @
     [(3624381080, 0), (310598401, 0), (607225278, 0), (1426881987, 0)] @
     [(1925078388, 0), (2162078206, 0), (2614888103, 0), (3248222580, 16)] @
     [(3835390401, 1882292224), (4022224774, 655360), (264347078, 4028381822),
       (604807628, 1073742468)] @
     [(770255983, 2588713219), (1249150122, 16951296), (1555081692, 3297193303),
       (1996064986, 1899085835)] @
     [(2554220882, 1933196056), (2821834349, 3358905676), (2952996808, 2599681016),
       (3210313671, 2324336940)] @
     [(3336571891, 2208860889), (3584528711, 3742934023), (113926993, 3847019408),
       (338241895, 685071482)] @
     [(666307205, 2934630023), (773529912, 2385666907), (1294757372, 2860545040),
       (1396182291, 2110501781)] @
     [(1695183700, 1479046439), (1986661051, 306381329), (2177026350, 2319736490),
       (2456956037, 2981237270)] @
     [(2730485921, 1540678910), (2820302411, 3669027323), (3259730800, 4089784539),
       (3345764771, 3463143723)] @
     [(3516065817, 76731848), (3600352804, 1365721703), (4094571909, 1840291606),
       (275423344, 1899413358)] @
     [(430227734, 605762284), (506948616, 859794450), (659060556, 1102455780),
       (883997877, 920822212)] @
     [(958139571, 1612128201), (1322822218, 3636553765), (1537002063, 659636720),
       (1747873779, 1038110663)] @
     [(1955562222, 4001472098), (2024104815, 774169337), (2227730452, 3179912979),
       (2361852424, 1100233496)] @
     [(2428436474, 3987798928), (2756734187, 442547197), (3204031479, 2335251723),
       (3329325298, 3132124512)]"
  by (simp add: round_constants_def)

lemma rounds64_p1:
  "foldl sha_round initial_hash (zip round_constants
    [1882292224, 0, 0, 0, 0, 0, 0, 0, 0, 0, 0, 0, 0, 0, 0, 16, 1882292224, 655360,
     4028381822, 1073742468, 2588713219, 16951296, 3297193303, 1899085835, 1933196056,
     3358905676, 2599681016, 2324336940, 2208860889, 3742934023, 3847019408, 685071482,
     2934630023, 2385666907, 2860545040, 2110501781, 1479046439, 306381329, 2319736490,
     2981237270, 1540678910, 3669027323, 4089784539, 3463143723, 76731848, 1365721703,
     1840291606, 1899413358, 605762284, 859794450, 1102455780, 920822212, 1612128201,
     3636553765, 659636720, 1038110663, 4001472098, 774169337, 3179912979, 1100233496,
     3987798928, 442547197, 2335251723, 3132124512]) =
    (2352704405, 461949342, 2400756650, 1447120682, 3570124201, 3493153123, 1943679762, 512305521)"
  by (simp only: zip_p1 foldl_append rounds_p1)

lemma compress_p1:
  "compress initial_hash [1882292224, 0, 0, 0, 0, 0, 0, 0, 0, 0, 0, 0, 0, 0, 0, 16] =
    (4131738108, 3606083619, 3414660892, 4220601444, 635050024, 1799008751, 2472414397, 2053764746)"
  by (simp only: compress_def schedule_p1 rounds64_p1) (simp add: initial_hash_def)

lemma blocks_p1:
  "blocks initial_hash (be_words (utf8_pad ''p1'')) =
    (4131738108, 3606083619, 3414660892, 4220601444, 635050024, 1799008751, 2472414397, 2053764746)"
  unfolding pad_p1
  by (subst blocks.simps, simp add: compress_p1) (simp add: blocks.simps)

lemma sha256_hex_p1:
  "sha256_hex ''p1'' = ''f64551fcd6f07823cb87971cfb91446425da18286b3ab1ef935e0cbd7a69f68a''"
  by (simp add: sha256_hex_def blocks_p1 hex8_def hex_digit_def)

lemma generateUserId_p1: "generateUserId ''p1'' = ''f64551fcd6f07823''"
  by (simp add: generateUserId_def sha256_hex_p1)

section \<open>Concrete tokens\<close>

lemma ws_length_ascii:
  assumes "33 \<le> (of_char c :: nat)" and "(of_char c :: nat) \<le> 127"
  shows "ws_length (c # cs) = 0"
proof -
  have "(of_char c :: nat) \<notin> {9, 10, 11, 12, 13, 32}"
    and "(of_char c :: nat) \<noteq> 194" and "(of_char c :: nat) \<noteq> 225"
    and "(of_char c :: nat) \<noteq> 226" and "(of_char c :: nat) \<noteq> 227"
    and "(of_char c :: nat) \<noteq> 239"
    using assms by auto
  then show ?thesis by (simp add: ws_length_def)
qed

lemma trimStart_ascii:
  assumes "33 \<le> (of_char c :: nat)" and "(of_char c :: nat) \<le> 127"
  shows "trimStart (c # cs) = c # cs"
  by (subst trimStart.simps) (simp add: ws_length_ascii [OF assms])

lemma decoded_p1_x:
  "Buffer_from_base64 ''cDE6MTcwMDAwMDAwMDAwMDp4'' = ''p1:1700000000000:x''"
  by (simp add: Buffer_from_base64_def unbase64_def char_of_eq_iff)

lemma decoded_p1_abc: "Buffer_from_base64 ''cDE6YWJj'' = ''p1:abc''"
  by (simp add: Buffer_from_base64_def unbase64_def char_of_eq_iff)

lemma decoded_p1_0: "Buffer_from_base64 ''cDE6MA=='' = ''p1:0''"
  by (simp add: Buffer_from_base64_def unbase64_def char_of_eq_iff)

lemma decoded_p1: "Buffer_from_base64 ''cDE='' = ''p1''"
  by (simp add: Buffer_from_base64_def unbase64_def char_of_eq_iff)

lemma decoded_p1_issued:
  "Buffer_from_base64 ''cDE6MTcwMDAwMDAwMDAwMA=='' = ''p1:1700000000000''"
  "Buffer_from_base64 ''cDE6MTcwMDAwMDAwNTAwMA=='' = ''p1:1700000005000''"
  "Buffer_from_base64 ''cDE6MTY5OTkxMzU5OTk5OQ=='' = ''p1:1699913599999''"
  "Buffer_from_base64 ''cDE6MTY5OTkxMzYwMDAwMA=='' = ''p1:1699913600000''"
  "Buffer_from_base64 ''cDE6MTY5OTkxMzY2MDAwMA=='' = ''p1:1699913660000''"
  by (simp_all add: Buffer_from_base64_def unbase64_def char_of_eq_iff)

lemma parseInt_examples:
  "parseInt ''1700000000000'' = Some 1700000000000"
  "parseInt ''1700000005000'' = Some 1700000005000"
  "parseInt ''1699913599999'' = Some 1699913599999"
  "parseInt ''1699913600000'' = Some 1699913600000"
  "parseInt ''1699913660000'' = Some 1699913660000"
  "parseInt ''0'' = Some 0"
  "parseInt ''abc'' = None"
  by (simp_all add: parseInt_def trimStart_ascii is_digit_def digit_value_def math_int_def)

lemma header_p1:
  "verifyToken 1700000001000 (Some ''Bearer cDE6MTcwMDAwMDAwMDAwMA=='') =
     Inr \<lparr>userId = ''f64551fcd6f07823'', password = ''p1''\<rparr>"
proof -
  have s: "str_split CHR '':'' (Buffer_from_base64 ''cDE6MTcwMDAwMDAwMDAwMA=='')
             = ''p1'' # ''1700000000000'' # []"
    by (simp add: decoded_p1_issued)
  have "verifyToken_try 1700000001000 ''cDE6MTcwMDAwMDAwMDAwMA==''
      = Inr \<lparr>userId = ''f64551fcd6f07823'', password = ''p1''\<rparr>"
    by (simp add: verifyToken_try_parts [OF s] parseInt_examples new_Date_def
          token_expired_def generateUserId_p1)
  then have "verifyToken 1700000001000 (Some (''Bearer '' @ ''cDE6MTcwMDAwMDAwMDAwMA==''))
      = Inr \<lparr>userId = ''f64551fcd6f07823'', password = ''p1''\<rparr>"
    by (subst verifyToken_Bearer) simp
  then show ?thesis by simp
qed

section \<open>The claims about the note store\<close>

text \<open>
  Claim C1. A sync request of an authenticated user, with an array of notes, whose
  timestamp is present and not later than the timestamp \<open>T0\<close> of the record stored for
  that user, writes nothing: the file is left as it is and the stored record (its notes
  and \<open>T0\<close>) is the reply.
\<close>

theorem sync_stale_write_is_noop:
  assumes "verifyToken now_v (authorization req) = Inr tok"
    and "Array_isArray (body_notes req)"
    and "NOTES_FILE fs = Stored m"
    and "m (userId tok) = Some r"
    and "body_timestamp req = Instant T1"
    and "T1 \<le> timestamp r"
  shows "sync_notes now_v now_l now_s req fs = (Response 200 (Record_json r), fs)"
  using assms
  by (simp add: sync_notes_def loadNotes_def truthy_def Date_of_def date_le_def)

theorem sync_stale_write_is_noop_witness:
  "sync_notes 1700000001000 1700000001001 1700000001002
     \<lparr>authorization = Some ''Bearer cDE6MTcwMDAwMDAwMDAwMA=='',
      body_notes = Some (JArr [JStr ''a'', JStr ''b'']),
      body_timestamp = Instant 1672531200000\<rparr>
     \<lparr>NOTES_FILE = Stored [''f64551fcd6f07823'' \<mapsto>
                                \<lparr>notes = JArr [JStr ''a''], timestamp = 1704067200000\<rparr>],
      write_error = None\<rparr>
   = (Response 200 (Record_json \<lparr>notes = JArr [JStr ''a''], timestamp = 1704067200000\<rparr>),
      \<lparr>NOTES_FILE = Stored [''f64551fcd6f07823'' \<mapsto>
                                \<lparr>notes = JArr [JStr ''a''], timestamp = 1704067200000\<rparr>],
       write_error = None\<rparr>)"
  by (rule sync_stale_write_is_noop
        [where tok = "\<lparr>userId = ''f64551fcd6f07823'', password = ''p1''\<rparr>"
           and m = "[''f64551fcd6f07823'' \<mapsto>
                      \<lparr>notes = JArr [JStr ''a''], timestamp = 1704067200000\<rparr>]"
           and ?T1.0 = 1672531200000])
     (simp_all add: header_p1 Array_isArray_def)

text \<open>
  Claim C2. When the file can be read and written, a sync whose timestamp is falsy or
  strictly later than the stored record's, and every save through \<open>POST /notes\<close>,
  replaces the user's entry by the request's notes stamped with the server's time of the
  write (whatever timestamp the client sent), writes the whole mapping with this one
  entry changed, and replies with the new record.
\<close>

theorem write_replaces_entry:
  assumes "verifyToken now_v (authorization req) = Inr tok"
    and "body_notes req = Some (JArr ns)"
    and "read_allNotes fs = Inr m"
    and "write_error fs = None"
  shows "((body_timestamp req = Falsy
            \<or> (\<exists>r T1. m (userId tok) = Some r \<and> body_timestamp req = Instant T1
                   \<and> timestamp r < T1))
          \<longrightarrow> sync_notes now_v now_l now_s req fs =
                (Response 200 (Record_json \<lparr>notes = JArr ns, timestamp = now_s\<rparr>),
                 fs\<lparr>NOTES_FILE :=
                      Stored (m(userId tok \<mapsto> \<lparr>notes = JArr ns, timestamp = now_s\<rparr>))\<rparr>))
       \<and> post_notes now_v now_s req fs =
            (Response 200 (Record_json \<lparr>notes = JArr ns, timestamp = now_s\<rparr>),
             fs\<lparr>NOTES_FILE :=
                  Stored (m(userId tok \<mapsto> \<lparr>notes = JArr ns, timestamp = now_s\<rparr>))\<rparr>)"
proof (intro conjI impI)
  have arr: "Array_isArray (body_notes req)"
    using assms(2) by (simp add: Array_isArray_def)
  have save: "saveNotes now_s (userId tok) (JArr ns, ts) fs =
      (Inr \<lparr>notes = JArr ns, timestamp = now_s\<rparr>,
       fs\<lparr>NOTES_FILE :=
            Stored (m(userId tok \<mapsto> \<lparr>notes = JArr ns, timestamp = now_s\<rparr>))\<rparr>)" for ts
    using assms(3,4) by (simp add: saveNotes_def Let_def)
  show "post_notes now_v now_s req fs =
            (Response 200 (Record_json \<lparr>notes = JArr ns, timestamp = now_s\<rparr>),
             fs\<lparr>NOTES_FILE :=
                  Stored (m(userId tok \<mapsto> \<lparr>notes = JArr ns, timestamp = now_s\<rparr>))\<rparr>)"
    using assms(1,2) arr by (simp add: post_notes_def save)
  assume newer: "body_timestamp req = Falsy
            \<or> (\<exists>r T1. m (userId tok) = Some r \<and> body_timestamp req = Instant T1
                   \<and> timestamp r < T1)"
  obtain existingData where load: "loadNotes now_l (userId tok) fs = Inr existingData"
    and ex: "\<And>r. m (userId tok) = Some r \<Longrightarrow> existingData = r"
    using assms(3)
    by (cases "NOTES_FILE fs") (auto simp: read_allNotes_def loadNotes_def)
  have cond: "(truthy (body_timestamp req)
            \<and> date_le (Date_of (body_timestamp req)) (Some (timestamp existingData)))
          = False"
    using newer ex by (auto simp: truthy_def Date_of_def date_le_def)
  show "sync_notes now_v now_l now_s req fs =
                (Response 200 (Record_json \<lparr>notes = JArr ns, timestamp = now_s\<rparr>),
                 fs\<lparr>NOTES_FILE :=
                      Stored (m(userId tok \<mapsto> \<lparr>notes = JArr ns, timestamp = now_s\<rparr>))\<rparr>)"
    using assms(1,2) arr load by (simp add: sync_notes_def save cond)
qed

theorem write_replaces_entry_witness:
  "sync_notes 1700000001000 1700000001001 1700000001002
     \<lparr>authorization = Some ''Bearer cDE6MTcwMDAwMDAwMDAwMA=='',
      body_notes = Some (JArr [JStr ''a'', JStr ''b'']),
      body_timestamp = Instant 1704067200000\<rparr>
     \<lparr>NOTES_FILE = Stored [''f64551fcd6f07823'' \<mapsto>
                                \<lparr>notes = JArr [JStr ''a''], timestamp = 1672531200000\<rparr>],
      write_error = None\<rparr>
   = (Response 200
        (Record_json \<lparr>notes = JArr [JStr ''a'', JStr ''b''], timestamp = 1700000001002\<rparr>),
      \<lparr>NOTES_FILE = Stored [''f64551fcd6f07823'' \<mapsto>
          \<lparr>notes = JArr [JStr ''a'', JStr ''b''], timestamp = 1700000001002\<rparr>],
       write_error = None\<rparr>)
   \<and> post_notes 1700000001000 1700000001002
     \<lparr>authorization = Some ''Bearer cDE6MTcwMDAwMDAwMDAwMA=='',
      body_notes = Some (JArr [JStr ''a'', JStr ''b'']),
      body_timestamp = Instant 1704067200000\<rparr>
     \<lparr>NOTES_FILE = ENOENT, write_error = None\<rparr>
   = (Response 200
        (Record_json \<lparr>notes = JArr [JStr ''a'', JStr ''b''], timestamp = 1700000001002\<rparr>),
      \<lparr>NOTES_FILE = Stored [''f64551fcd6f07823'' \<mapsto>
          \<lparr>notes = JArr [JStr ''a'', JStr ''b''], timestamp = 1700000001002\<rparr>],
       write_error = None\<rparr>)"
proof -
  let ?req = "\<lparr>authorization = Some ''Bearer cDE6MTcwMDAwMDAwMDAwMA=='',
      body_notes = Some (JArr [JStr ''a'', JStr ''b'']),
      body_timestamp = Instant 1704067200000\<rparr>"
  let ?m = "[''f64551fcd6f07823'' \<mapsto>
              \<lparr>notes = JArr [JStr ''a''], timestamp = 1672531200000\<rparr>]"
  let ?fs = "\<lparr>NOTES_FILE = Stored ?m, write_error = None\<rparr>"
  let ?absent = "\<lparr>NOTES_FILE = ENOENT, write_error = None\<rparr>"
  have tok: "verifyToken 1700000001000 (authorization ?req) =
               Inr \<lparr>userId = ''f64551fcd6f07823'', password = ''p1''\<rparr>"
    by (simp add: header_p1)
  have arr: "body_notes ?req = Some (JArr [JStr ''a'', JStr ''b''])" by simp
  have rd: "read_allNotes ?fs = Inr ?m" by (simp add: read_allNotes_def)
  have rd0: "read_allNotes ?absent = Inr Map.empty" by (simp add: read_allNotes_def)
  have wr: "write_error ?fs = None" "write_error ?absent = None" by simp_all
  from write_replaces_entry [OF tok arr rd wr(1), of 1700000001001 1700000001002]
    write_replaces_entry [OF tok arr rd0 wr(2), of 1700000001001 1700000001002]
  show ?thesis by simp
qed

text \<open>
  Claim C6. With a valid token and notes that are not an array, sync and save reply 400
  whatever the state of the file is, also when it cannot be read, and leave it as it is.
\<close>

theorem validation_precedes_storage:
  assumes "verifyToken now_v (authorization req) = Inr tok"
    and "\<not> Array_isArray (body_notes req)"
  shows "sync_notes now_v now_l now_s req fs =
           (Response 400 (Error_json ''Notes must be an array''), fs)
       \<and> post_notes now_v now_s req fs =
           (Response 400 (Error_json ''Notes must be an array''), fs)"
  using assms by (simp add: sync_notes_def post_notes_def)

theorem validation_precedes_storage_witness:
  "sync_notes 1700000001000 1700000001001 1700000001002
     \<lparr>authorization = Some ''Bearer cDE6MTcwMDAwMDAwMDAwMA=='',
      body_notes = Some (JStr ''a''), body_timestamp = Falsy\<rparr>
     \<lparr>NOTES_FILE = Unreadable (Error ''EACCES''), write_error = None\<rparr>
   = (Response 400 (Error_json ''Notes must be an array''),
      \<lparr>NOTES_FILE = Unreadable (Error ''EACCES''), write_error = None\<rparr>)
   \<and> post_notes 1700000001000 1700000001002
     \<lparr>authorization = Some ''Bearer cDE6MTcwMDAwMDAwMDAwMA=='',
      body_notes = Some (JStr ''a''), body_timestamp = Falsy\<rparr>
     \<lparr>NOTES_FILE = Unreadable (Error ''EACCES''), write_error = None\<rparr>
   = (Response 400 (Error_json ''Notes must be an array''),
      \<lparr>NOTES_FILE = Unreadable (Error ''EACCES''), write_error = None\<rparr>)"
  by (rule validation_precedes_storage
        [where tok = "\<lparr>userId = ''f64551fcd6f07823'', password = ''p1''\<rparr>"])
     (simp_all add: header_p1 Array_isArray_def)

text \<open>
  Claim C7. When the file is missing, or holds no entry for the user, reading returns
  the empty record stamped with the current time, \<open>GET /notes\<close> replies 200 with it,
  and nothing is written.
\<close>

theorem cold_start_read:
  assumes "verifyToken now_v (authorization req) = Inr tok"
    and "NOTES_FILE fs = ENOENT \<or> (\<exists>m. NOTES_FILE fs = Stored m \<and> m (userId tok) = None)"
  shows "loadNotes now_l (userId tok) fs = Inr \<lparr>notes = JArr [], timestamp = now_l\<rparr>
       \<and> get_notes now_v now_l req fs =
           (Response 200 (Record_json \<lparr>notes = JArr [], timestamp = now_l\<rparr>), fs)"
  using assms by (auto simp: get_notes_def loadNotes_def empty_record_def)

theorem cold_start_read_witness:
  "get_notes 1700000001000 1700000001001
     \<lparr>authorization = Some ''Bearer cDE6MTcwMDAwMDAwMDAwMA=='',
      body_notes = None, body_timestamp = Falsy\<rparr>
     \<lparr>NOTES_FILE = ENOENT, write_error = None\<rparr>
   = (Response 200 (Record_json \<lparr>notes = JArr [], timestamp = 1700000001001\<rparr>),
      \<lparr>NOTES_FILE = ENOENT, write_error = None\<rparr>)
   \<and> get_notes 1700000001000 1700000001001
     \<lparr>authorization = Some ''Bearer cDE6MTcwMDAwMDAwMDAwMA=='',
      body_notes = None, body_timestamp = Falsy\<rparr>
     \<lparr>NOTES_FILE = Stored Map.empty, write_error = None\<rparr>
   = (Response 200 (Record_json \<lparr>notes = JArr [], timestamp = 1700000001001\<rparr>),
      \<lparr>NOTES_FILE = Stored Map.empty, write_error = None\<rparr>)"
proof -
  let ?req = "\<lparr>authorization = Some ''Bearer cDE6MTcwMDAwMDAwMDAwMA=='',
      body_notes = None, body_timestamp = Falsy\<rparr>"
  let ?tok = "\<lparr>userId = ''f64551fcd6f07823'', password = ''p1''\<rparr>"
  let ?absent = "\<lparr>NOTES_FILE = ENOENT, write_error = None\<rparr>"
  let ?empty = "\<lparr>NOTES_FILE = Stored Map.empty, write_error = None\<rparr>"
  have tok: "verifyToken 1700000001000 (authorization ?req) = Inr ?tok"
    by (simp add: header_p1)
  have f0: "NOTES_FILE ?absent = ENOENT
              \<or> (\<exists>m. NOTES_FILE ?absent = Stored m \<and> m (userId ?tok) = None)"
    by simp
  have f1: "NOTES_FILE ?empty = ENOENT
              \<or> (\<exists>m. NOTES_FILE ?empty = Stored m \<and> m (userId ?tok) = None)"
    by simp
  from cold_start_read [OF tok f0, of 1700000001001]
    cold_start_read [OF tok f1, of 1700000001001]
  show ?thesis by simp
qed

text \<open>
  Claim C8. A write for user \<open>A\<close> leaves the entry of every other user \<open>B\<close> as it was,
  in \<open>saveNotes\<close> and in the two routes that call it.
\<close>

theorem write_leaves_other_users:
  assumes "A \<noteq> B"
  shows "entry (snd (saveNotes now A userData fs)) B = entry fs B
       \<and> (verifyToken now_v (authorization req) = Inr tok \<and> userId tok = A
            \<longrightarrow> entry (snd (sync_notes now_v now_l now_s req fs)) B = entry fs B
              \<and> entry (snd (post_notes now_v now_s req fs)) B = entry fs B)"
proof -
  have save: "entry (snd (saveNotes t A d fs)) B = entry fs B" for t d
    using assms
    by (cases "NOTES_FILE fs"; cases "write_error fs")
       (simp_all add: saveNotes_def read_allNotes_def entry_def Let_def)
  have sync: "entry (snd (sync_notes now_v now_l now_s req fs)) B = entry fs B"
    if v: "verifyToken now_v (authorization req) = Inr tok" and a: "userId tok = A"
  proof -
    obtain res fs' where
      s: "saveNotes now_s A (the (body_notes req), body_timestamp req) fs = (res, fs')"
      by (cases "saveNotes now_s A (the (body_notes req), body_timestamp req) fs")
    have "entry fs' B = entry fs B"
      using save [of now_s "(the (body_notes req), body_timestamp req)"] s by simp
    then show ?thesis
      using v a s by (simp add: sync_notes_def split: sum.splits)
  qed
  have post: "entry (snd (post_notes now_v now_s req fs)) B = entry fs B"
    if v: "verifyToken now_v (authorization req) = Inr tok" and a: "userId tok = A"
  proof -
    obtain res fs' where
      s: "saveNotes now_s A (the (body_notes req), Falsy) fs = (res, fs')"
      by (cases "saveNotes now_s A (the (body_notes req), Falsy) fs")
    have "entry fs' B = entry fs B"
      using save [of now_s "(the (body_notes req), Falsy)"] s by simp
    then show ?thesis
      using v a s by (simp add: post_notes_def split: sum.splits)
  qed
  show ?thesis using save sync post by blast
qed

theorem write_leaves_other_users_witness:
  "entry (snd (saveNotes 1700000001002 ''00000000000000aa'' (JArr [JStr ''x''], Falsy)
     \<lparr>NOTES_FILE = Stored [''00000000000000bb'' \<mapsto>
                                \<lparr>notes = JArr [JStr ''a''], timestamp = 1672531200000\<rparr>],
      write_error = None\<rparr>)) ''00000000000000bb''
   = Some \<lparr>notes = JArr [JStr ''a''], timestamp = 1672531200000\<rparr>
   \<and> entry (snd (sync_notes 1700000001000 1700000001001 1700000001002
     \<lparr>authorization = Some ''Bearer cDE6MTcwMDAwMDAwMDAwMA=='',
      body_notes = Some (JArr [JStr ''x'']), body_timestamp = Falsy\<rparr>
     \<lparr>NOTES_FILE = Stored [''00000000000000bb'' \<mapsto>
                                \<lparr>notes = JArr [JStr ''a''], timestamp = 1672531200000\<rparr>],
      write_error = None\<rparr>)) ''00000000000000bb''
   = Some \<lparr>notes = JArr [JStr ''a''], timestamp = 1672531200000\<rparr>"
proof -
  let ?fs = "\<lparr>NOTES_FILE = Stored [''00000000000000bb'' \<mapsto>
                                \<lparr>notes = JArr [JStr ''a''], timestamp = 1672531200000\<rparr>],
      write_error = None\<rparr>"
  let ?req = "\<lparr>authorization = Some ''Bearer cDE6MTcwMDAwMDAwMDAwMA=='',
      body_notes = Some (JArr [JStr ''x'']), body_timestamp = Falsy\<rparr>"
  let ?tok = "\<lparr>userId = ''f64551fcd6f07823'', password = ''p1''\<rparr>"
  have ne: "''00000000000000aa'' \<noteq> ''00000000000000bb''"
    and ne': "''f64551fcd6f07823'' \<noteq> ''00000000000000bb''" by simp_all
  have v: "verifyToken 1700000001000 (authorization ?req) = Inr ?tok
             \<and> userId ?tok = ''f64551fcd6f07823''"
    by (simp add: header_p1)
  from write_leaves_other_users [OF ne, of 1700000001002 "(JArr [JStr ''x''], Falsy)" ?fs]
  have a: "entry (snd (saveNotes 1700000001002 ''00000000000000aa''
                          (JArr [JStr ''x''], Falsy) ?fs)) ''00000000000000bb''
             = entry ?fs ''00000000000000bb''"
    by blast
  from write_leaves_other_users [OF ne', of _ _ ?fs 1700000001000 ?req ?tok
      1700000001001 1700000001002] v
  have b: "entry (snd (sync_notes 1700000001000 1700000001001 1700000001002 ?req ?fs))
             ''00000000000000bb'' = entry ?fs ''00000000000000bb''"
    by blast
  have "entry ?fs ''00000000000000bb''
          = Some \<lparr>notes = JArr [JStr ''a''], timestamp = 1672531200000\<rparr>"
    by (simp add: entry_def)
  with a b show ?thesis by simp
qed

section \<open>The claims about the identity resolver\<close>

text \<open>
  Claim C3, as the code has it. The format check of \<open>verifyToken\<close> throws exactly when
  the first or the second piece of the decoded payload, split at the colons, is missing
  or empty, and the caller then sees \<open>Invalid token\<close>. Pieces after the second are not
  looked at, so a payload of more than two pieces passes the check.
\<close>

theorem token_format_check:
  "(verifyToken_try now token = Inl (Error ''Invalid token format''))
     = (case str_split CHR '':'' (Buffer_from_base64 token) of
          pw # ts # rest \<Rightarrow> pw = [] \<or> ts = []
        | _ \<Rightarrow> True)
   \<and> (verifyToken_try now token = Inl (Error ''Invalid token format'')
        \<longrightarrow> verifyToken now (Some (''Bearer '' @ token)) = Inl (Error ''Invalid token''))"
proof -
  have "verifyToken_try now token = Inl (Error ''Invalid token format'')
        \<Longrightarrow> verifyToken now (Some (''Bearer '' @ token)) = Inl (Error ''Invalid token'')"
    by (subst verifyToken_Bearer) simp
  moreover have "(verifyToken_try now token = Inl (Error ''Invalid token format''))
     = (case str_split CHR '':'' (Buffer_from_base64 token) of
          pw # ts # rest \<Rightarrow> pw = [] \<or> ts = []
        | _ \<Rightarrow> True)"
    by (simp add: verifyToken_try_def split: list.splits)
  ultimately show ?thesis by blast
qed

theorem token_format_check_witness:
  "verifyToken_try 1700000001000 ''cDE6MTcwMDAwMDAwMDAwMDp4''
     \<noteq> Inl (Error ''Invalid token format'')
   \<and> verifyToken_try 1700000001000 ''cDE='' = Inl (Error ''Invalid token format'')
   \<and> verifyToken 1700000001000 (Some ''Bearer cDE='') = Inl (Error ''Invalid token'')"
proof -
  from token_format_check [of 1700000001000 "''cDE6MTcwMDAwMDAwMDAwMDp4''"]
    token_format_check [of 1700000001000 "''cDE=''"]
  show ?thesis by (simp add: decoded_p1_x decoded_p1)
qed

text \<open>
  The claim as the spec states it fails: the token \<open>base64("p1:1700000000000:x")\<close>
  decodes to three pieces and is accepted.
\<close>

theorem three_part_token_accepted:
  "str_split CHR '':'' (Buffer_from_base64 ''cDE6MTcwMDAwMDAwMDAwMDp4'')
     = [''p1'', ''1700000000000'', ''x'']
   \<and> verifyToken 1700000001000 (Some ''Bearer cDE6MTcwMDAwMDAwMDAwMDp4'')
     = Inr \<lparr>userId = ''f64551fcd6f07823'', password = ''p1''\<rparr>"
proof -
  have s: "str_split CHR '':'' (Buffer_from_base64 ''cDE6MTcwMDAwMDAwMDAwMDp4'')
     = [''p1'', ''1700000000000'', ''x'']"
    by (simp add: decoded_p1_x)
  have "verifyToken_try 1700000001000 ''cDE6MTcwMDAwMDAwMDAwMDp4''
     = Inr \<lparr>userId = ''f64551fcd6f07823'', password = ''p1''\<rparr>"
    by (simp add: verifyToken_try_parts [OF s] parseInt_examples new_Date_def
          token_expired_def generateUserId_p1)
  then have "verifyToken 1700000001000 (Some (''Bearer '' @ ''cDE6MTcwMDAwMDAwMDAwMDp4''))
     = Inr \<lparr>userId = ''f64551fcd6f07823'', password = ''p1''\<rparr>"
    by (subst verifyToken_Bearer) simp
  with s show ?thesis by simp
qed

text \<open>
  Claim C4, at a failing input. The token \<open>base64("p1:0")\<close> was issued at the epoch. At
  time 1700000000000 the \<open>try\<close> block throws \<open>Token expired\<close>, but the \<open>catch\<close> of
  \<open>verifyToken\<close> replaces it: the caller gets \<open>Invalid token\<close>, the reply is 401 with
  that message, and the message does not contain \<open>expired\<close>.
\<close>

theorem expired_token_message:
  "verifyToken_try 1700000000000 ''cDE6MA=='' = Inl (Error ''Token expired'')
   \<and> verifyToken 1700000000000 (Some ''Bearer cDE6MA=='') = Inl (Error ''Invalid token'')
   \<and> get_notes 1700000000000 1700000000001
         \<lparr>authorization = Some ''Bearer cDE6MA=='', body_notes = None,
          body_timestamp = Falsy\<rparr>
         \<lparr>NOTES_FILE = ENOENT, write_error = None\<rparr>
       = (Response 401 (Error_json ''Invalid token''),
          \<lparr>NOTES_FILE = ENOENT, write_error = None\<rparr>)
   \<and> \<not> str_includes ''Invalid token'' ''expired''"
proof -
  have s: "str_split CHR '':'' (Buffer_from_base64 ''cDE6MA=='') = [''p1'', ''0'']"
    by (simp add: decoded_p1_0)
  have t: "verifyToken_try 1700000000000 ''cDE6MA=='' = Inl (Error ''Token expired'')"
    by (simp add: verifyToken_try_parts [OF s] parseInt_examples new_Date_def
          token_expired_def)
  then have "verifyToken 1700000000000 (Some (''Bearer '' @ ''cDE6MA==''))
      = Inl (Error ''Invalid token'')"
    by (subst verifyToken_Bearer) simp
  then have v: "verifyToken 1700000000000 (Some ''Bearer cDE6MA=='')
      = Inl (Error ''Invalid token'')" by simp
  have "get_notes 1700000000000 1700000000001
         \<lparr>authorization = Some ''Bearer cDE6MA=='', body_notes = None,
          body_timestamp = Falsy\<rparr>
         \<lparr>NOTES_FILE = ENOENT, write_error = None\<rparr>
       = (Response 401 (Error_json ''Invalid token''),
          \<lparr>NOTES_FILE = ENOENT, write_error = None\<rparr>)"
    by (simp add: get_notes_def v on_error_def)
  with t v show ?thesis by simp
qed

text \<open>
  Claim C5. A token whose first two pieces are not empty and whose second piece
  \<open>new Date(parseInt(...))\<close> reads as the instant \<open>issued\<close> is rejected when
  \<open>now - issued\<close> exceeds 24 hours and accepted otherwise, at exactly 24 hours too.
\<close>

theorem freshness_window:
  assumes "str_split CHR '':'' (Buffer_from_base64 token) = pw # ts # rest"
    and "pw \<noteq> []" and "ts \<noteq> []"
    and "new_Date (parseInt ts) = Some issued"
  shows "verifyToken now (Some (''Bearer '' @ token)) =
           (if now - issued > 24 * 60 * 60 * 1000 then Inl (Error ''Invalid token'')
            else Inr \<lparr>userId = generateUserId pw, password = pw\<rparr>)"
proof -
  have "verifyToken_try now token =
           (if now - issued > 24 * 60 * 60 * 1000 then Inl (Error ''Token expired'')
            else Inr \<lparr>userId = generateUserId pw, password = pw\<rparr>)"
    using assms(2-4) by (simp add: verifyToken_try_parts [OF assms(1)] token_expired_def)
  then show ?thesis by (subst verifyToken_Bearer) simp
qed

theorem freshness_window_witness:
  "verifyToken 1700000000000 (Some ''Bearer cDE6MTY5OTkxMzU5OTk5OQ=='')
     = Inl (Error ''Invalid token'')
   \<and> verifyToken 1700000000000 (Some ''Bearer cDE6MTY5OTkxMzYwMDAwMA=='')
     = Inr \<lparr>userId = ''f64551fcd6f07823'', password = ''p1''\<rparr>
   \<and> verifyToken 1700000000000 (Some ''Bearer cDE6MTY5OTkxMzY2MDAwMA=='')
     = Inr \<lparr>userId = ''f64551fcd6f07823'', password = ''p1''\<rparr>"
proof -
  have s: "str_split CHR '':'' (Buffer_from_base64 ''cDE6MTY5OTkxMzU5OTk5OQ=='')
             = ''p1'' # ''1699913599999'' # []"
    "str_split CHR '':'' (Buffer_from_base64 ''cDE6MTY5OTkxMzYwMDAwMA=='')
             = ''p1'' # ''1699913600000'' # []"
    "str_split CHR '':'' (Buffer_from_base64 ''cDE6MTY5OTkxMzY2MDAwMA=='')
             = ''p1'' # ''1699913660000'' # []"
    by (simp_all add: decoded_p1_issued)
  have n: "''p1'' \<noteq> []" "''1699913599999'' \<noteq> []" "''1699913600000'' \<noteq> []"
    "''1699913660000'' \<noteq> []" by simp_all
  have d: "new_Date (parseInt ''1699913599999'') = Some (1700000000000 - 86400001)"
    "new_Date (parseInt ''1699913600000'') = Some (1700000000000 - 86400000)"
    "new_Date (parseInt ''1699913660000'') = Some (1700000000000 - 86340000)"
    by (simp_all add: parseInt_examples new_Date_def)
  from freshness_window [OF s(1) n(1) n(2) d(1), of 1700000000000]
    freshness_window [OF s(2) n(1) n(3) d(2), of 1700000000000]
    freshness_window [OF s(3) n(1) n(4) d(3), of 1700000000000]
  show ?thesis by (simp add: generateUserId_p1)
qed

text \<open>
  Claim C9. The user identifier is 16 hexadecimal digits, and two tokens whose payloads
  are the same secret followed by a colon and an issue instant resolve, when both are
  accepted, to the same identifier: that of the secret when it has no colon in it.
\<close>

theorem identity_deterministic:
  assumes "Buffer_from_base64 token1 = s @ '':'' @ issued1"
    and "Buffer_from_base64 token2 = s @ '':'' @ issued2"
    and "CHR '':'' \<notin> set issued1" and "CHR '':'' \<notin> set issued2"
  shows "length (generateUserId s) = 16
   \<and> set (generateUserId s) \<subseteq> set ''0123456789abcdef''
   \<and> (verifyToken now1 (Some (''Bearer '' @ token1)) = Inr r1
        \<and> verifyToken now2 (Some (''Bearer '' @ token2)) = Inr r2
      \<longrightarrow> userId r1 = userId r2
          \<and> (CHR '':'' \<notin> set s \<longrightarrow> userId r1 = generateUserId s))"
proof (intro conjI impI)
  show "length (generateUserId s) = 16"
    and "set (generateUserId s) \<subseteq> set ''0123456789abcdef''"
    using generateUserId_hex16 [of s] by blast+
next
  assume v: "verifyToken now1 (Some (''Bearer '' @ token1)) = Inr r1
        \<and> verifyToken now2 (Some (''Bearer '' @ token2)) = Inr r2"
  from v have "verifyToken_try now1 token1 = Inr r1"
    by (blast dest: verifyToken_Bearer_Inr)
  with assms(1,3) have r1: "userId r1 = generateUserId (hd (str_split CHR '':'' s))"
    by (rule verifyToken_try_first_piece)
  from v have "verifyToken_try now2 token2 = Inr r2"
    by (blast dest: verifyToken_Bearer_Inr)
  with assms(2,4) have r2: "userId r2 = generateUserId (hd (str_split CHR '':'' s))"
    by (rule verifyToken_try_first_piece)
  show "userId r1 = userId r2" using r1 r2 by simp
  assume "CHR '':'' \<notin> set s"
  then show "userId r1 = generateUserId s" using r1 by (simp add: str_split_no_sep)
qed

theorem identity_deterministic_witness:
  "verifyToken 1700000001000 (Some ''Bearer cDE6MTcwMDAwMDAwMDAwMA=='')
     = Inr \<lparr>userId = ''f64551fcd6f07823'', password = ''p1''\<rparr>
   \<and> verifyToken 1700000009000 (Some ''Bearer cDE6MTcwMDAwMDAwNTAwMA=='')
     = Inr \<lparr>userId = ''f64551fcd6f07823'', password = ''p1''\<rparr>
   \<and> generateUserId ''p1'' = ''f64551fcd6f07823''
   \<and> length (generateUserId ''p1'') = 16"
proof -
  let ?r = "\<lparr>userId = ''f64551fcd6f07823'', password = ''p1''\<rparr>"
  have s: "str_split CHR '':'' (Buffer_from_base64 ''cDE6MTcwMDAwMDAwNTAwMA=='')
             = ''p1'' # ''1700000005000'' # []"
    by (simp add: decoded_p1_issued)
  have "verifyToken_try 1700000009000 ''cDE6MTcwMDAwMDAwNTAwMA=='' = Inr ?r"
    by (simp add: verifyToken_try_parts [OF s] parseInt_examples new_Date_def
          token_expired_def generateUserId_p1)
  then have "verifyToken 1700000009000 (Some (''Bearer '' @ ''cDE6MTcwMDAwMDAwNTAwMA==''))
      = Inr ?r"
    by (subst verifyToken_Bearer) simp
  then have v2: "verifyToken 1700000009000 (Some ''Bearer cDE6MTcwMDAwMDAwNTAwMA=='') = Inr ?r"
    by simp
  have p: "Buffer_from_base64 ''cDE6MTcwMDAwMDAwMDAwMA=='' = ''p1'' @ '':'' @ ''1700000000000''"
    "Buffer_from_base64 ''cDE6MTcwMDAwMDAwNTAwMA=='' = ''p1'' @ '':'' @ ''1700000005000''"
    by (simp_all add: decoded_p1_issued)
  have c: "CHR '':'' \<notin> set ''1700000000000''" "CHR '':'' \<notin> set ''1700000005000''"
    "CHR '':'' \<notin> set ''p1''" by simp_all
  note t = identity_deterministic [OF p c(1,2), of 1700000001000 ?r 1700000009000 ?r]
  from t header_p1 v2 c(3) have "userId ?r = generateUserId ''p1''" by simp
  then have g: "generateUserId ''p1'' = ''f64551fcd6f07823''" by simp
  from t have l: "length (generateUserId ''p1'') = 16" by blast
  show ?thesis using header_p1 v2 g l by blast
qed

text \<open>
  Claim C10. A second piece that is not empty and that \<open>parseInt\<close> reads as \<open>NaN\<close>, or
  as an instant after the current time, never makes the freshness check throw; when
  the first piece is not empty either, the token is accepted and resolves to the
  identifier of the first piece.
\<close>

theorem unparsable_or_future_instant_not_expired:
  assumes "str_split CHR '':'' (Buffer_from_base64 token) = pw # ts # rest"
    and "ts \<noteq> []"
    and "parseInt ts = None \<or> (\<exists>t. parseInt ts = Some t \<and> now < t)"
  shows "verifyToken_try now token \<noteq> Inl (Error ''Token expired'')
       \<and> (pw \<noteq> [] \<longrightarrow> verifyToken now (Some (''Bearer '' @ token))
                          = Inr \<lparr>userId = generateUserId pw, password = pw\<rparr>)"
proof -
  have e: "\<not> token_expired now (new_Date (parseInt ts))"
    using assms(3) by (auto simp: token_expired_def new_Date_def split: if_splits)
  have t: "verifyToken_try now token =
      (if pw = [] then Inl (Error ''Invalid token format'')
       else Inr \<lparr>userId = generateUserId pw, password = pw\<rparr>)"
    using e assms(2) by (simp add: verifyToken_try_parts [OF assms(1)])
  have "pw \<noteq> [] \<Longrightarrow> verifyToken now (Some (''Bearer '' @ token))
                          = Inr \<lparr>userId = generateUserId pw, password = pw\<rparr>"
    by (subst verifyToken_Bearer) (simp add: t)
  then show ?thesis using t by simp
qed

theorem unparsable_or_future_instant_not_expired_witness:
  "verifyToken 1700000000000 (Some ''Bearer cDE6YWJj'')
     = Inr \<lparr>userId = ''f64551fcd6f07823'', password = ''p1''\<rparr>
   \<and> verifyToken 1600000000000 (Some ''Bearer cDE6MTcwMDAwMDAwMDAwMA=='')
     = Inr \<lparr>userId = ''f64551fcd6f07823'', password = ''p1''\<rparr>"
proof -
  have s1: "str_split CHR '':'' (Buffer_from_base64 ''cDE6YWJj'') = ''p1'' # ''abc'' # []"
    by (simp add: decoded_p1_abc)
  have s2: "str_split CHR '':'' (Buffer_from_base64 ''cDE6MTcwMDAwMDAwMDAwMA=='')
      = ''p1'' # ''1700000000000'' # []"
    by (simp add: decoded_p1_issued)
  have n: "''abc'' \<noteq> []" "''1700000000000'' \<noteq> []" by simp_all
  have p1: "parseInt ''abc'' = None
      \<or> (\<exists>t. parseInt ''abc'' = Some t \<and> 1700000000000 < t)"
    by (simp add: parseInt_examples)
  have p2: "parseInt ''1700000000000'' = None
      \<or> (\<exists>t. parseInt ''1700000000000'' = Some t \<and> 1600000000000 < t)"
    by (simp add: parseInt_examples)
  from unparsable_or_future_instant_not_expired [OF s1 n(1) p1]
    unparsable_or_future_instant_not_expired [OF s2 n(2) p2]
  show ?thesis by (simp add: generateUserId_p1)
qed

section \<open>The tokens of the wire format\<close>

text \<open>
  The tokens that the clients build, \<open>base64(password + ":" + issueInstantMillis)\<close>,
  are decoded and parsed back to the secret and the issue instant they were built from.
\<close>

lemma is_digit_dec: "(d::nat) < 10 \<Longrightarrow> is_digit 10 (char_of (48 + d))"
  by (simp add: is_digit_def digit_value_def Let_def)

lemma digit_value_dec: "(d::nat) < 10 \<Longrightarrow> digit_value (char_of (48 + d)) = Some d"
  by (simp add: digit_value_def Let_def)

lemma digits10_not_Nil: "digits10 n \<noteq> []"
  by (subst digits10.simps) simp

lemma digits10_digits: "0 \<le> n \<Longrightarrow> \<forall>c\<in>set (digits10 n). is_digit 10 c"
proof (induction n rule: digits10.induct)
  case (1 n)
  show ?case
  proof (cases "n < 10")
    case True
    with "1.prems" have "nat n < 10" by simp
    then show ?thesis using True by (subst digits10.simps) (simp add: is_digit_dec)
  next
    case False
    then have "0 \<le> n div 10" using "1.prems" by simp
    with 1 False have ih: "\<forall>c\<in>set (digits10 (n div 10)). is_digit 10 c" by simp
    have "nat (n mod 10) < 10" by simp
    then have "is_digit 10 (char_of (48 + nat (n mod 10)))" by (rule is_digit_dec)
    then show ?thesis using False ih by (subst digits10.simps) simp
  qed
qed

lemma math_int_snoc:
  "math_int R (Z @ [c]) = math_int R Z * int R + int (the (digit_value c))"
  by (simp add: math_int_def)

lemma math_int_digits10: "0 \<le> n \<Longrightarrow> math_int 10 (digits10 n) = n"
proof (induction n rule: digits10.induct)
  case (1 n)
  show ?case
  proof (cases "n < 10")
    case True
    with "1.prems" have "nat n < 10" by simp
    then have "digit_value (char_of (48 + nat n)) = Some (nat n)" by (rule digit_value_dec)
    then show ?thesis using True "1.prems"
      by (subst digits10.simps) (simp add: math_int_def)
  next
    case False
    then have "0 \<le> n div 10" using "1.prems" by simp
    with 1 False have ih: "math_int 10 (digits10 (n div 10)) = n div 10" by simp
    have "nat (n mod 10) < 10" by simp
    then have "digit_value (char_of (48 + nat (n mod 10))) = Some (nat (n mod 10))"
      by (rule digit_value_dec)
    then show ?thesis using False ih
      by (subst digits10.simps) (simp add: math_int_snoc)
  qed
qed

lemma is_digit_10_range: "is_digit 10 c \<Longrightarrow> 48 \<le> (of_char c :: nat) \<and> (of_char c :: nat) \<le> 57"
  by (auto simp: is_digit_def digit_value_def Let_def split: if_splits)

lemma trimStart_digit: "is_digit 10 c \<Longrightarrow> trimStart (c # cs) = c # cs"
  by (rule trimStart_ascii) (auto dest: is_digit_10_range)

lemma trimStart_minus: "trimStart (CHR ''-'' # cs) = CHR ''-'' # cs"
  by (rule trimStart_ascii) simp_all

lemma startsWith_digit:
  assumes "is_digit 10 c"
  shows "\<not> startsWith (c # cs) ''-''" and "\<not> startsWith (c # cs) ''+''"
  using is_digit_10_range [OF assms] by auto

lemma startsWith_2_mem: "startsWith ds [a, b] \<Longrightarrow> b \<in> set ds"
proof (cases ds)
  case Nil
  then show "startsWith ds [a, b] \<Longrightarrow> b \<in> set ds" by simp
next
  case (Cons x xs)
  then show "startsWith ds [a, b] \<Longrightarrow> b \<in> set ds" by (cases xs) simp_all
qed

lemma startsWith_0x_digits:
  assumes "\<forall>c\<in>set ds. is_digit 10 c"
  shows "\<not> startsWith ds ''0x''" and "\<not> startsWith ds ''0X''"
proof -
  have "\<not> is_digit 10 CHR ''x''" "\<not> is_digit 10 CHR ''X''"
    by (simp_all add: is_digit_def digit_value_def)
  with assms have "CHR ''x'' \<notin> set ds" "CHR ''X'' \<notin> set ds" by blast+
  then show "\<not> startsWith ds ''0x''" and "\<not> startsWith ds ''0X''"
    using startsWith_2_mem by blast+
qed

lemma parseInt_digits:
  assumes "ds \<noteq> []" and "\<forall>c\<in>set ds. is_digit 10 c"
  shows "parseInt ds = Some (math_int 10 ds)"
    and "parseInt (CHR ''-'' # ds) = Some (- math_int 10 ds)"
proof -
  from assms obtain c cs where ds: "ds = c # cs" and c: "is_digit 10 c"
    by (cases ds) auto
  have all: "takeWhile (is_digit 10) ds = ds"
    using assms(2) by (simp add: takeWhile_eq_all_conv)
  have t: "trimStart ds = ds" unfolding ds using c by (rule trimStart_digit)
  have s: "\<not> startsWith ds ''-''" "\<not> startsWith ds ''+''"
    unfolding ds using c by (rule startsWith_digit)+
  note x = startsWith_0x_digits [OF assms(2)]
  show "parseInt ds = Some (math_int 10 ds)"
    by (simp add: parseInt_def Let_def t s x all assms(1))
  show "parseInt (CHR ''-'' # ds) = Some (- math_int 10 ds)"
    by (simp add: parseInt_def Let_def trimStart_minus x all assms(1))
qed

lemma parseInt_decimal: "parseInt (decimal t) = Some t"
proof (cases "t < 0")
  case True
  then have "0 \<le> - t" by simp
  then show ?thesis
    using True parseInt_digits(2) [OF digits10_not_Nil digits10_digits, of "- t"]
    by (simp add: decimal_def math_int_digits10)
next
  case False
  then have "0 \<le> t" by simp
  then show ?thesis
    using False parseInt_digits(1) [OF digits10_not_Nil digits10_digits, of t]
    by (simp add: decimal_def math_int_digits10)
qed

lemma decimal_no_colon: "CHR '':'' \<notin> set (decimal t)"
proof -
  have "\<not> is_digit 10 CHR '':''" by (simp add: is_digit_def digit_value_def)
  then have "\<And>n. 0 \<le> n \<Longrightarrow> CHR '':'' \<notin> set (digits10 n)"
    using digits10_digits by blast
  then show ?thesis by (simp add: decimal_def)
qed

lemma decimal_not_Nil: "decimal t \<noteq> []"
  by (simp add: decimal_def digits10_not_Nil)

lemma pack_div: "q < k \<Longrightarrow> (x * k + q) div k = (x::nat)"
  by simp

lemma pack_mod: "q < k \<Longrightarrow> (x * k + q) mod k = (q::nat)"
  by simp

lemma octet1: "b < 256 \<Longrightarrow> a div 4 * 4 + ((a mod 4) * 16 + b div 16) div 16 = (a::nat)"
proof -
  assume "b < 256"
  then have "b div 16 < 16" by simp
  then have "((a mod 4) * 16 + b div 16) div 16 = a mod 4" by (rule pack_div)
  then show ?thesis by simp
qed

lemma octet2: "b < 256 \<Longrightarrow> c < 256 \<Longrightarrow>
   (((a mod 4) * 16 + b div 16) mod 16) * 16 + ((b mod 16) * 4 + c div 64) div 4 = (b::nat)"
proof -
  assume "b < 256" "c < 256"
  then have "b div 16 < 16" "c div 64 < 4" by simp_all
  then have "((a mod 4) * 16 + b div 16) mod 16 = b div 16"
    and "((b mod 16) * 4 + c div 64) div 4 = b mod 16"
    by (simp_all add: pack_div pack_mod)
  then show ?thesis by simp
qed

lemma octet3: "c < 256 \<Longrightarrow> (((b mod 16) * 4 + c div 64) mod 4) * 64 + c mod 64 = (c::nat)"
proof -
  assume "c < 256"
  then have "c div 64 < 4" by simp
  then have "((b mod 16) * 4 + c div 64) mod 4 = c div 64" by (rule pack_mod)
  then show ?thesis by simp
qed

lemma sextet2: "b < 256 \<Longrightarrow> (a mod 4) * 16 + b div 16 < (64::nat)"
proof -
  assume "b < 256"
  then have "b div 16 < 16" by simp
  moreover have "a mod 4 < 4" by simp
  ultimately show ?thesis by linarith
qed

lemma sextet3: "c < 256 \<Longrightarrow> (b mod 16) * 4 + c div 64 < (64::nat)"
proof -
  assume "c < 256"
  then have "c div 64 < 4" by simp
  moreover have "b mod 16 < 16" by simp
  ultimately show ?thesis by linarith
qed

lemma unbase64_base64_char: "n < 64 \<Longrightarrow> unbase64 (base64_char n) = Some n"
  by (auto simp: unbase64_def base64_char_def Let_def)

lemma base64_char_not_pad:
  assumes "n < 64"
  shows "base64_char n \<noteq> CHR ''=''"
proof
  assume "base64_char n = CHR ''=''"
  then have "unbase64 (base64_char n) = unbase64 CHR ''=''" by simp
  then show False using assms by (simp add: unbase64_base64_char) (simp add: unbase64_def)
qed

lemma sextets_base64_char:
  "n < 64 \<Longrightarrow> sextets (base64_char n # cs) = n # sextets cs"
  by (simp add: unbase64_base64_char base64_char_not_pad)

lemma octets_base64:
  "\<forall>b\<in>set bs. b < 256 \<Longrightarrow> octets (sextets (base64 bs)) = bs"
proof (induction bs rule: base64.induct)
  case (1 a b c r)
  from "1.prems" have a: "a < 256" and b: "b < 256" and c: "c < 256"
    and rest: "\<forall>b\<in>set r. b < 256" by simp_all
  have r: "octets (sextets (base64 r)) = r" using rest by (rule "1.IH")
  have "a div 4 < 64" and "c mod 64 < 64" using a by simp_all
  then have "sextets (base64 (a # b # c # r)) =
          a div 4 # ((a mod 4) * 16 + b div 16) # ((b mod 16) * 4 + c div 64) # c mod 64
            # sextets (base64 r)"
    using sextet2 [OF b, of a] sextet3 [OF c, of b]
    by (simp add: sextets_base64_char del: sextets.simps)
  then show ?case
    using octet1 [OF b, of a] octet2 [OF b c, of a] octet3 [OF c, of b] r by simp
next
  case (2 a b)
  from "2.prems" have a: "a < 256" and b: "b < 256" by simp_all
  have "a div 4 < 64" and "(b mod 16) * 4 < 64" using a by simp_all
  then have "sextets (base64 [a, b]) =
          [a div 4, (a mod 4) * 16 + b div 16, (b mod 16) * 4]"
    using sextet2 [OF b, of a]
    by (simp add: sextets_base64_char del: sextets.simps) simp
  then show ?case
    using octet1 [OF b, of a] octet2 [OF b, of 0 a] by simp
next
  case (3 a)
  from "3.prems" have a: "a < 256" by simp
  have "a div 4 < 64" and "(a mod 4) * 16 < 64" using a by simp_all
  then have "sextets (base64 [a]) = [a div 4, (a mod 4) * 16]"
    by (simp add: sextets_base64_char del: sextets.simps) simp
  then show ?case
    using octet1 [of 0 a] by simp
next
  case 4
  show ?case by simp
qed

lemma Buffer_from_base64_base64:
  "Buffer_from_base64 (base64 (map of_char s)) = s"
proof -
  have "\<forall>b\<in>set (map of_char s :: nat list). b < 256" by auto
  then have "octets (sextets (base64 (map of_char s))) = map of_char s"
    by (rule octets_base64)
  then show ?thesis by (simp add: Buffer_from_base64_def comp_def)
qed

lemma Buffer_from_base64_token_of:
  "Buffer_from_base64 (token_of s t) = s @ '':'' @ decimal t"
  unfolding token_of_def by (rule Buffer_from_base64_base64)

lemma str_split_token_of:
  "str_split CHR '':'' (Buffer_from_base64 (token_of s t)) =
     str_split CHR '':'' s @ [decimal t]"
  using str_split_append_sep [where c = "CHR '':''" and d = "decimal t" and s = s]
  by (simp add: Buffer_from_base64_token_of decimal_no_colon)

lemma token_expired_decimal:
  "\<bar>t\<bar> \<le> 8640000000000000 \<Longrightarrow>
     token_expired now (new_Date (parseInt (decimal t))) = (now - t > 86400000)"
  by (simp add: parseInt_decimal new_Date_def token_expired_def)

lemma verifyToken_try_token_of:
  assumes "s \<noteq> []" and "CHR '':'' \<notin> set s" and "\<bar>t\<bar> \<le> 8640000000000000"
  shows "verifyToken_try now (token_of s t) =
           (if now - t > 86400000 then Inl (Error ''Token expired'')
            else Inr \<lparr>userId = generateUserId s, password = s\<rparr>)"
proof -
  have "str_split CHR '':'' (Buffer_from_base64 (token_of s t)) = s # decimal t # []"
    using assms(2) by (simp add: str_split_token_of str_split_no_sep)
  then show ?thesis
    using assms(1) token_expired_decimal [OF assms(3), of now]
    by (simp add: verifyToken_try_parts decimal_not_Nil)
qed

lemma verifyToken_token_of:
  assumes "s \<noteq> []" and "CHR '':'' \<notin> set s" and "\<bar>t\<bar> \<le> 8640000000000000"
  shows "verifyToken now (Some (''Bearer '' @ token_of s t)) =
           (if now - t > 86400000 then Inl (Error ''Invalid token'')
            else Inr \<lparr>userId = generateUserId s, password = s\<rparr>)"
  by (subst verifyToken_Bearer) (simp add: verifyToken_try_token_of [OF assms])

lemma token_of_p1: "token_of ''p1'' 1700000000000 = ''cDE6MTcwMDAwMDAwMDAwMA==''"
  by (simp add: token_of_def decimal_def digits10.simps base64_char_def char_of_eq_iff)

end
